theory Spec2Isabelle
  imports Main "HOL-Library.Word"
begin

unbundle bit_operations_syntax

section \<open>The controller of the 7 MHz SSB transceiver (7mhz_ssb_trx.ino)\<close>

text \<open>
  The sketch runs on an Arduino Nano (ATmega328P): \<open>uint64_t\<close> is a 64-bit word,
  \<open>unsigned long\<close> (the value of \<open>millis()\<close>) a 32-bit word, \<open>uint8_t\<close> an 8-bit
  word. The globals of the sketch, the two \<open>static\<close> locals of the handlers and the
  EEPROM bytes are the fields of one record that every function takes and returns.
  What the sketch sends to its peripherals is appended to a log in the same record:
  the calls of \<open>si5351.set_freq\<close>, the writes to the TX enable pin, the frames drawn by
  \<open>updateDisplay\<close> and the records written by \<open>saveSettings\<close>. What it reads from them
  (the encoder result, the pin levels, \<open>millis()\<close>, the results of the two \<open>begin\<close>/\<open>init\<close>
  calls) is an argument of the function that reads it. The text sent to \<open>Serial\<close>, the
  drive strengths and the pixels of a frame are left out.
\<close>

type_synonym u8 = "8 word"
type_synonym u16 = "16 word"
type_synonym u32 = "32 word"
type_synonym u64 = "64 word"

subsection \<open>Constants\<close>

definition IF_FREQ :: u64 where "IF_FREQ = 9000000"
definition BFO_FREQ :: u64 where "BFO_FREQ = 8998500"
definition FREQ_MIN :: u64 where "FREQ_MIN = 7000000"
definition FREQ_MAX :: u64 where "FREQ_MAX = 7200000"
definition FREQ_DEFAULT :: u64 where "FREQ_DEFAULT = 7100000"

definition STEP_10HZ :: u64 where "STEP_10HZ = 10"
definition STEP_100HZ :: u64 where "STEP_100HZ = 100"
definition STEP_1KHZ :: u64 where "STEP_1KHZ = 1000"
definition STEP_10KHZ :: u64 where "STEP_10KHZ = 10000"

definition EEPROM_FREQ_ADDR :: nat where "EEPROM_FREQ_ADDR = 0"
definition EEPROM_STEP_ADDR :: nat where "EEPROM_STEP_ADDR = 4"
definition EEPROM_MAGIC_ADDR :: nat where "EEPROM_MAGIC_ADDR = 8"
definition EEPROM_MAGIC_VALUE :: u16 where "EEPROM_MAGIC_VALUE = 0xAA55"

definition step_sizes :: "u64 list" where
  "step_sizes = [STEP_10HZ, STEP_100HZ, STEP_1KHZ, STEP_10KHZ]"

definition num_steps :: nat where
  "num_steps = length step_sizes"

definition debounce_delay :: u32 where "debounce_delay = 50"

subsection \<open>State\<close>

text \<open>
  The clock outputs of the synthesizer, and the values \<open>Rotary::process\<close> returns:
  \<open>DIR_CW\<close>, \<open>DIR_CCW\<close>, and \<open>DIR_NONE\<close> for every other value, which the handler
  ignores.
\<close>

datatype si5351_clock = SI5351_CLK0 | SI5351_CLK1 | SI5351_CLK2

datatype enc_result = DIR_NONE | DIR_CW | DIR_CCW

text \<open>
  A pin level is a \<open>bool\<close>, as in the sketch (\<open>bool ptt_state = digitalRead(...)\<close>):
  \<open>True\<close> is \<open>HIGH\<close>, \<open>False\<close> is \<open>LOW\<close>.
\<close>

record trx =
  frequency :: u64
  step_size :: u64
  tx_mode :: bool
  display_update_needed :: bool
  step_index :: u8
  last_enc_sw_time :: u32
  last_ptt_time :: u32
  last_ptt_state :: bool
  last_sw_state :: bool
  eeprom :: "nat \<Rightarrow> u8"
  synth_log :: "(u64 \<times> si5351_clock) list"
  tx_en_log :: "bool list"
  display_log :: "(u64 \<times> u64 \<times> bool) list"
  save_log :: "(u32 \<times> u8) list"

text \<open>The globals as their initialisers set them, over the EEPROM contents \<open>ee\<close>.\<close>

definition boot :: "(nat \<Rightarrow> u8) \<Rightarrow> trx" where
  "boot ee = \<lparr> frequency = FREQ_DEFAULT, step_size = STEP_1KHZ, tx_mode = False,
     display_update_needed = True, step_index = 2,
     last_enc_sw_time = 0, last_ptt_time = 0,
     last_ptt_state = True, last_sw_state = True,
     eeprom = ee, synth_log = [], tx_en_log = [], display_log = [], save_log = [] \<rparr>"

subsection \<open>updateVFO and handleEncoder\<close>

definition updateVFO :: "trx \<Rightarrow> trx" where
  "updateVFO s =
     (let vfo_freq = frequency s + IF_FREQ
      in s\<lparr>synth_log := synth_log s @ [(vfo_freq * 100, SI5351_CLK0)]\<rparr>)"

definition handleEncoder :: "enc_result \<Rightarrow> trx \<Rightarrow> trx" where
  "handleEncoder result s =
     (if result = DIR_CW then
        (if frequency s + step_size s \<le> FREQ_MAX
         then (updateVFO (s\<lparr>frequency := frequency s + step_size s\<rparr>))
                \<lparr>display_update_needed := True\<rparr>
         else s)
      else if result = DIR_CCW then
        (if frequency s \<ge> step_size s + FREQ_MIN
         then (updateVFO (s\<lparr>frequency := frequency s - step_size s\<rparr>))
                \<lparr>display_update_needed := True\<rparr>
         else s)
      else s)"

text \<open>The band: \<open>FREQ_MIN \<le> f \<le> FREQ_MAX\<close>.\<close>

definition in_band :: "u64 \<Rightarrow> bool" where
  "in_band f \<longleftrightarrow> FREQ_MIN \<le> f \<and> f \<le> FREQ_MAX"

subsection \<open>The EEPROM\<close>

text \<open>
  \<open>EEPROM.put(addr, v)\<close> of the Arduino core stores the \<open>sizeof v\<close> bytes of \<open>v\<close> at
  \<open>addr\<close>, \<open>addr + 1\<close>, ..., lowest byte first (the AVR is little-endian), and
  \<open>EEPROM.get\<close> reads them back the same way.
\<close>

definition le_byte :: "'a::len word \<Rightarrow> nat \<Rightarrow> u8" where
  "le_byte v k = ucast (drop_bit (8 * k) v)"

definition EEPROM_put_u8 :: "nat \<Rightarrow> u8 \<Rightarrow> (nat \<Rightarrow> u8) \<Rightarrow> (nat \<Rightarrow> u8)" where
  "EEPROM_put_u8 a v m = m(a := v)"

definition EEPROM_put_u16 :: "nat \<Rightarrow> u16 \<Rightarrow> (nat \<Rightarrow> u8) \<Rightarrow> (nat \<Rightarrow> u8)" where
  "EEPROM_put_u16 a v m = m(a := le_byte v 0, a + 1 := le_byte v 1)"

definition EEPROM_put_u32 :: "nat \<Rightarrow> u32 \<Rightarrow> (nat \<Rightarrow> u8) \<Rightarrow> (nat \<Rightarrow> u8)" where
  "EEPROM_put_u32 a v m =
     m(a := le_byte v 0, a + 1 := le_byte v 1, a + 2 := le_byte v 2, a + 3 := le_byte v 3)"

definition EEPROM_get_u8 :: "nat \<Rightarrow> (nat \<Rightarrow> u8) \<Rightarrow> u8" where
  "EEPROM_get_u8 a m = m a"

definition EEPROM_get_u16 :: "nat \<Rightarrow> (nat \<Rightarrow> u8) \<Rightarrow> u16" where
  "EEPROM_get_u16 a m = ucast (m a) OR push_bit 8 (ucast (m (a + 1)))"

definition EEPROM_get_u32 :: "nat \<Rightarrow> (nat \<Rightarrow> u8) \<Rightarrow> u32" where
  "EEPROM_get_u32 a m =
     ucast (m a) OR push_bit 8 (ucast (m (a + 1)))
       OR push_bit 16 (ucast (m (a + 2))) OR push_bit 24 (ucast (m (a + 3)))"

subsection \<open>saveSettings and loadSettings\<close>

definition saveSettings :: "trx \<Rightarrow> trx" where
  "saveSettings s =
     (let e1 = EEPROM_put_u32 EEPROM_FREQ_ADDR (ucast (frequency s)) (eeprom s);
          e2 = EEPROM_put_u8 EEPROM_STEP_ADDR (step_index s) e1;
          e3 = EEPROM_put_u16 EEPROM_MAGIC_ADDR EEPROM_MAGIC_VALUE e2
      in s\<lparr>eeprom := e3,
            save_log := save_log s @ [(ucast (frequency s), step_index s)]\<rparr>)"

text \<open>
  \<open>saved_freq\<close> is a \<open>uint32_t\<close>; the comparisons with the \<open>ULL\<close> bounds and the
  assignment to \<open>frequency\<close> widen it to 64 bits. \<open>step_index >= num_steps\<close> compares
  two \<open>uint8_t\<close> values. The read of \<open>step_sizes[step_index]\<close> comes after the check
  that puts the index below \<open>num_steps\<close>.
\<close>

definition loadSettings :: "trx \<Rightarrow> trx" where
  "loadSettings s =
     (let magic = EEPROM_get_u16 EEPROM_MAGIC_ADDR (eeprom s)
      in if magic = EEPROM_MAGIC_VALUE then
           (let saved_freq = EEPROM_get_u32 EEPROM_FREQ_ADDR (eeprom s);
                s1 = s\<lparr>step_index := EEPROM_get_u8 EEPROM_STEP_ADDR (eeprom s)\<rparr>;
                s2 = (if (ucast saved_freq :: u64) \<ge> FREQ_MIN \<and> (ucast saved_freq :: u64) \<le> FREQ_MAX
                      then s1\<lparr>frequency := ucast saved_freq\<rparr> else s1);
                s3 = (if unat (step_index s2) \<ge> num_steps
                      then s2\<lparr>step_index := 2\<rparr> else s2)
            in s3\<lparr>step_size := step_sizes ! unat (step_index s3)\<rparr>)
         else s)"

subsection \<open>handlePTT\<close>

text \<open>
  \<open>ptt_state\<close> is the level read from the PTT pin. The handler calls \<open>millis()\<close>
  twice, for the comparison and again for the assignment: \<open>clk\<close> is the pair of the two
  values read, in this order. The subtraction is the 32-bit unsigned one of the sketch.
\<close>

definition handlePTT :: "bool \<Rightarrow> u32 \<times> u32 \<Rightarrow> trx \<Rightarrow> trx" where
  "handlePTT ptt_state clk s =
     (if ptt_state \<noteq> last_ptt_state s then
        (let s1 = (if fst clk - last_ptt_time s > debounce_delay then
                     (let s' = s\<lparr>last_ptt_time := snd clk\<rparr>;
                          new_tx_mode = (ptt_state = False)
                      in if new_tx_mode \<noteq> tx_mode s'
                         then s'\<lparr>tx_mode := new_tx_mode,
                                 tx_en_log := tx_en_log s' @ [new_tx_mode],
                                 display_update_needed := True\<rparr>
                         else s')
                   else s)
         in s1\<lparr>last_ptt_state := ptt_state\<rparr>)
      else s)"

subsection \<open>handleEncoderSwitch\<close>

text \<open>
  \<open>step_cycle\<close> is the body of the accepted press, after the time stamp is taken.
  \<open>step_index + 1\<close> is computed in \<open>int\<close> (integer promotion), so it does not wrap at
  256 before the remainder is taken. As in \<open>handlePTT\<close>, \<open>clk\<close> is the pair of the two
  values of \<open>millis()\<close> the handler reads.
\<close>

definition step_cycle :: "trx \<Rightarrow> trx" where
  "step_cycle s =
     (let i = (of_nat ((unat (step_index s) + 1) mod num_steps) :: u8);
          s1 = s\<lparr>step_index := i, step_size := step_sizes ! unat i,
                 display_update_needed := True\<rparr>
      in saveSettings s1)"

definition handleEncoderSwitch :: "bool \<Rightarrow> u32 \<times> u32 \<Rightarrow> trx \<Rightarrow> trx" where
  "handleEncoderSwitch sw_state clk s =
     (let s1 = (if sw_state = False \<and> last_sw_state s = True then
                  (if fst clk - last_enc_sw_time s > debounce_delay
                   then step_cycle (s\<lparr>last_enc_sw_time := snd clk\<rparr>)
                   else s)
                else s)
      in s1\<lparr>last_sw_state := sw_state\<rparr>)"

subsection \<open>updateDisplay, setup and loop\<close>

text \<open>A frame is what the three draw functions read: frequency, step size, mode.\<close>

definition updateDisplay :: "trx \<Rightarrow> trx" where
  "updateDisplay s = s\<lparr>display_log := display_log s @ [(frequency s, step_size s, tx_mode s)]\<rparr>"

text \<open>\<open>while (1);\<close> after a failed \<open>si5351.init\<close> never returns: \<open>None\<close>.\<close>

definition setupSi5351 :: "bool \<Rightarrow> trx \<Rightarrow> trx option" where
  "setupSi5351 i2c_found s =
     (if \<not> i2c_found then None
      else (let s1 = updateVFO s
            in Some (s1\<lparr>synth_log := synth_log s1 @ [(BFO_FREQ * 100, SI5351_CLK1)]\<rparr>)))"

text \<open>
  \<open>display_ok\<close> is the result of \<open>display.begin\<close>, \<open>i2c_found\<close> that of
  \<open>si5351.init\<close>; the function \<open>setup()\<close> of the sketch (here \<open>setup_trx\<close>, the
  plain name being a command of the prover) halts (\<open>None\<close>) when either fails.
\<close>

definition setup_trx :: "(nat \<Rightarrow> u8) \<Rightarrow> bool \<Rightarrow> bool \<Rightarrow> trx option" where
  "setup_trx ee display_ok i2c_found =
     (let s0 = (boot ee)\<lparr>tx_en_log := [False]\<rparr>;
          s1 = loadSettings s0
      in if \<not> display_ok then None
         else (case setupSi5351 i2c_found s1 of
                 None \<Rightarrow> None
               | Some s2 \<Rightarrow> Some (updateDisplay s2)))"

text \<open>What one iteration of \<open>loop\<close> reads from the pins, the encoder and the clock.\<close>

record loop_input =
  enc_in :: enc_result
  ptt_in :: bool
  ptt_millis :: "u32 \<times> u32"
  sw_in :: bool
  sw_millis :: "u32 \<times> u32"

definition loop :: "loop_input \<Rightarrow> trx \<Rightarrow> trx" where
  "loop inp s =
     (let s1 = handleEncoder (enc_in inp) s;
          s2 = handlePTT (ptt_in inp) (ptt_millis inp) s1;
          s3 = handleEncoderSwitch (sw_in inp) (sw_millis inp) s2
      in if display_update_needed s3
         then (updateDisplay s3)\<lparr>display_update_needed := False\<rparr>
         else s3)"

subsection \<open>The tuning rule in unbounded integers\<close>

text \<open>
  The rule of the specification for one encoder tick, on mathematical integers:
  \<open>TuneUp\<close> adds the step if the sum stays at or below 7,200,000, \<open>TuneDown\<close>
  subtracts it if the difference stays at or above 7,000,000, anything else leaves the
  frequency as it is. The handler is compared with it.
\<close>

definition spec_tune :: "enc_result \<Rightarrow> int \<Rightarrow> int \<Rightarrow> int" where
  "spec_tune ev f st =
     (case ev of
        DIR_CW \<Rightarrow> (if f + st \<le> 7200000 then f + st else f)
      | DIR_CCW \<Rightarrow> (if f - st \<ge> 7000000 then f - st else f)
      | DIR_NONE \<Rightarrow> f)"

text \<open>
  The arithmetic of the \<open>DIR_CCW\<close> branch with every operation checked: \<open>None\<close> as
  soon as the 64-bit sum in the guard or the 64-bit difference wraps.
\<close>

definition add_u64_chk :: "u64 \<Rightarrow> u64 \<Rightarrow> u64 option" where
  "add_u64_chk a b = (if unat a + unat b < 2 ^ 64 then Some (a + b) else None)"

definition sub_u64_chk :: "u64 \<Rightarrow> u64 \<Rightarrow> u64 option" where
  "sub_u64_chk a b = (if unat b \<le> unat a then Some (a - b) else None)"

definition tune_down_chk :: "u64 \<Rightarrow> u64 \<Rightarrow> u64 option" where
  "tune_down_chk f st =
     (case add_u64_chk st FREQ_MIN of
        None \<Rightarrow> None
      | Some lim \<Rightarrow> (if f \<ge> lim then sub_u64_chk f st else Some f))"

text \<open>An erased EEPROM: every byte reads \<open>0xFF\<close>.\<close>

definition erased :: "nat \<Rightarrow> u8" where
  "erased = (\<lambda>a. 0xFF)"

subsection \<open>Runs of the sketch\<close>

text \<open>
  The invariants of the tuning state: the frequency is in the band, the step index is
  below the table length, the step size is the table entry at the index.
\<close>

definition valid :: "trx \<Rightarrow> bool" where
  "valid s \<longleftrightarrow> in_band (frequency s) \<and> unat (step_index s) < num_steps \<and>
     step_size s = step_sizes ! unat (step_index s)"

text \<open>
  A command is well formed when, if it goes to \<open>CLK0\<close>, its value is
  \<open>(f + 9,000,000) \<times> 100\<close> for a frequency \<open>f\<close> of the band.
\<close>

definition cmd_ok :: "u64 \<times> si5351_clock \<Rightarrow> bool" where
  "cmd_ok p \<longleftrightarrow> (snd p = SI5351_CLK0 \<longrightarrow>
      (\<exists>f. in_band f \<and> unat (fst p) = (unat f + 9000000) * 100))"

text \<open>
  A run: \<open>setup()\<close> with both peripherals answering, over the EEPROM contents \<open>ee\<close>,
  then one iteration of \<open>loop()\<close> for each element of \<open>inps\<close>.
\<close>

definition run :: "(nat \<Rightarrow> u8) \<Rightarrow> loop_input list \<Rightarrow> trx option" where
  "run ee inps = map_option (fold loop inps) (setup_trx ee True True)"

text \<open>Inputs of one iteration: nothing happens; one counter-clockwise tick.\<close>

definition idle :: loop_input where
  "idle = \<lparr>enc_in = DIR_NONE, ptt_in = True, ptt_millis = (1, 1), sw_in = True, sw_millis = (1, 1)\<rparr>"

definition tick_ccw :: loop_input where
  "tick_ccw = \<lparr>enc_in = DIR_CCW, ptt_in = True, ptt_millis = (100, 100),
     sw_in = True, sw_millis = (100, 100)\<rparr>"

text \<open>
  An EEPROM holding the sentinel, the step index 1 and the frequency 0, written with the
  sketch's own layout.
\<close>

definition image_freq0 :: "nat \<Rightarrow> u8" where
  "image_freq0 = EEPROM_put_u16 EEPROM_MAGIC_ADDR EEPROM_MAGIC_VALUE
     (EEPROM_put_u8 EEPROM_STEP_ADDR 1 (EEPROM_put_u32 EEPROM_FREQ_ADDR 0 erased))"

text \<open>
  The initial globals with the step size \<open>2^64 - 7,000,000\<close>, a value of the type that
  is not in the table.
\<close>

definition wide_step :: trx where
  "wide_step = (boot erased)\<lparr>step_size := 2 ^ 64 - 7000000\<rparr>"

text \<open>What a frame shows of a state.\<close>

definition frame :: "trx \<Rightarrow> u64 \<times> u64 \<times> bool" where
  "frame s = (frequency s, step_size s, tx_mode s)"

text \<open>
  The state after start-up on an erased EEPROM and a PTT press seen at 100 ms (the
  second read of the clock already gives 101).
\<close>

definition keyed :: trx where
  "keyed = handlePTT False (100, 101) (boot erased)"

section \<open>Properties\<close>

lemmas consts_defs =
  IF_FREQ_def BFO_FREQ_def FREQ_MIN_def FREQ_MAX_def FREQ_DEFAULT_def
  STEP_10HZ_def STEP_100HZ_def STEP_1KHZ_def STEP_10KHZ_def
  EEPROM_FREQ_ADDR_def EEPROM_STEP_ADDR_def EEPROM_MAGIC_ADDR_def EEPROM_MAGIC_VALUE_def
  step_sizes_def num_steps_def debounce_delay_def

subsection \<open>Tuning\<close>

lemma step_sizes_cases:
  "x \<in> set step_sizes \<longleftrightarrow> x = 10 \<or> x = 100 \<or> x = 1000 \<or> x = 10000"
  by (auto simp: consts_defs)

lemma handleEncoder_step_size: "step_size (handleEncoder d s) = step_size s"
  by (simp add: handleEncoder_def updateVFO_def)

lemma handleEncoder_in_band:
  assumes "in_band (frequency s)" and "step_size s \<in> set step_sizes"
  shows "in_band (frequency (handleEncoder d s))"
  using assms
  apply (simp add: handleEncoder_def updateVFO_def in_band_def step_sizes_cases
      FREQ_MIN_def FREQ_MAX_def)
  apply (auto simp: word_le_nat_alt unat_word_ariths unat_sub_if_size word_size)
  done

lemma handleEncoder_spec:
  assumes "in_band (frequency s)" and "step_size s \<in> set step_sizes"
  shows "uint (frequency (handleEncoder d s)) =
           spec_tune d (uint (frequency s)) (uint (step_size s))"
  using assms
  apply (cases d)
    apply (simp_all add: handleEncoder_def updateVFO_def in_band_def step_sizes_cases
      FREQ_MIN_def FREQ_MAX_def spec_tune_def)
   apply (auto simp: word_le_def uint_word_ariths uint_sub_if_size word_size)
  done

lemma fold_handleEncoder_valid:
  "in_band (frequency s) \<Longrightarrow> step_size s \<in> set step_sizes \<Longrightarrow>
   in_band (frequency (fold handleEncoder ds s)) \<and>
   step_size (fold handleEncoder ds s) = step_size s"
proof (induction ds arbitrary: s)
  case Nil
  then show ?case by simp
next
  case (Cons d ds)
  have "in_band (frequency (handleEncoder d s))"
    using Cons.prems by (rule handleEncoder_in_band)
  moreover have "step_size (handleEncoder d s) \<in> set step_sizes"
    using Cons.prems by (simp add: handleEncoder_step_size)
  ultimately show ?case
    using Cons.IH [of "handleEncoder d s"] by (simp add: handleEncoder_step_size)
qed

text \<open>
  C1. Start from a state whose frequency is in the band and whose step size is one of
  the four table entries, and feed the encoder handler any sequence \<open>ds\<close> of results.
  The frequency after the sequence is in the band (and so after every prefix of it),
  the step size is untouched, and the next event \<open>d\<close> moves the frequency exactly as
  the rule on unbounded integers says: by the step size when the bound check passes,
  not at all otherwise. The equality is between integers, so the 64-bit arithmetic of
  the handler has not wrapped; the handler is a total function and has no error result.
\<close>

theorem tuning_stays_in_band:
  assumes "in_band (frequency s)" and "step_size s \<in> set step_sizes"
  shows "in_band (frequency (fold handleEncoder ds s)) \<and>
         step_size (fold handleEncoder ds s) = step_size s \<and>
         uint (frequency (handleEncoder d (fold handleEncoder ds s))) =
           spec_tune d (uint (frequency (fold handleEncoder ds s))) (uint (step_size s))"
proof -
  let ?t = "fold handleEncoder ds s"
  have v: "in_band (frequency ?t) \<and> step_size ?t = step_size s"
    using assms by (rule fold_handleEncoder_valid)
  then have "step_size ?t \<in> set step_sizes"
    using assms(2) by simp
  with v have "uint (frequency (handleEncoder d ?t)) =
      spec_tune d (uint (frequency ?t)) (uint (step_size ?t))"
    by (simp add: handleEncoder_spec)
  with v show ?thesis by simp
qed

theorem tuning_stays_in_band_witness:
  "in_band (frequency (boot erased)) \<and> step_size (boot erased) \<in> set step_sizes \<and>
   in_band (frequency (fold handleEncoder [DIR_CW, DIR_CW, DIR_CCW] (boot erased))) \<and>
   uint (frequency (handleEncoder DIR_CCW
           (fold handleEncoder [DIR_CW, DIR_CW, DIR_CCW] (boot erased)))) =
     spec_tune DIR_CCW
       (uint (frequency (fold handleEncoder [DIR_CW, DIR_CW, DIR_CCW] (boot erased))))
       (uint (step_size (boot erased))) \<and>
   frequency (fold handleEncoder [DIR_CW, DIR_CW, DIR_CCW] (boot erased)) = 7101000 \<and>
   frequency (handleEncoder DIR_CCW
      (fold handleEncoder [DIR_CW, DIR_CW, DIR_CCW] (boot erased))) = 7100000"
proof -
  have h1: "in_band (frequency (boot erased))"
    by (simp add: boot_def in_band_def consts_defs)
  have h2: "step_size (boot erased) \<in> set step_sizes"
    by (simp add: boot_def consts_defs)
  have v1: "frequency (fold handleEncoder [DIR_CW, DIR_CW, DIR_CCW] (boot erased)) = 7101000"
    by (simp add: handleEncoder_def updateVFO_def boot_def consts_defs)
  have v2: "frequency (handleEncoder DIR_CCW
      (fold handleEncoder [DIR_CW, DIR_CW, DIR_CCW] (boot erased))) = 7100000"
    by (simp add: handleEncoder_def updateVFO_def boot_def consts_defs)
  show ?thesis
    using h1 h2 v1 v2
      tuning_stays_in_band [OF h1 h2, of "[DIR_CW, DIR_CW, DIR_CCW]" DIR_CCW]
    by blast
qed

subsection \<open>What the synthesizer is told\<close>

lemma in_band_unat: "in_band f \<longleftrightarrow> 7000000 \<le> unat f \<and> unat f \<le> 7200000"
  by (simp add: in_band_def FREQ_MIN_def FREQ_MAX_def word_le_nat_alt)

lemma vfo_word_unat:
  "in_band f \<Longrightarrow> unat ((f + IF_FREQ) * 100) = (unat f + 9000000) * 100"
  by (simp add: in_band_unat IF_FREQ_def unat_word_ariths)

lemma handleEncoder_log:
  assumes "in_band (frequency s)" and "step_size s \<in> set step_sizes"
  shows "synth_log (handleEncoder d s) =
     (if frequency (handleEncoder d s) \<noteq> frequency s
      then synth_log s @ [((frequency (handleEncoder d s) + IF_FREQ) * 100, SI5351_CLK0)]
      else synth_log s)"
  using assms
  apply (simp add: handleEncoder_def updateVFO_def in_band_def step_sizes_cases
      FREQ_MIN_def FREQ_MAX_def)
  apply auto
  done

lemma handleEncoder_dirty:
  assumes "in_band (frequency s)" and "step_size s \<in> set step_sizes"
  shows "display_update_needed (handleEncoder d s) =
     (display_update_needed s \<or> frequency (handleEncoder d s) \<noteq> frequency s)"
  using assms
  apply (simp add: handleEncoder_def updateVFO_def in_band_def step_sizes_cases
      FREQ_MIN_def FREQ_MAX_def)
  apply auto
  done

lemma handleEncoder_step_index: "step_index (handleEncoder d s) = step_index s"
  by (simp add: handleEncoder_def updateVFO_def)

text \<open>The invariants hold after \<open>setup()\<close> and are kept by every handler.\<close>

lemma valid_step: "valid s \<Longrightarrow> step_size s \<in> set step_sizes"
  by (simp add: valid_def num_steps_def)

lemma valid_boot: "valid (boot ee)"
  by (simp add: valid_def boot_def in_band_def consts_defs)

lemma loadSettings_valid: "valid s \<Longrightarrow> valid (loadSettings s)"
  by (simp add: valid_def loadSettings_def Let_def in_band_def not_le num_steps_def
      step_sizes_def)

lemma loadSettings_logs:
  "synth_log (loadSettings s) = synth_log s \<and> display_log (loadSettings s) = display_log s \<and>
   tx_en_log (loadSettings s) = tx_en_log s \<and> tx_mode (loadSettings s) = tx_mode s \<and>
   display_update_needed (loadSettings s) = display_update_needed s"
  by (simp add: loadSettings_def Let_def)

lemma handlePTT_keeps:
  "frequency (handlePTT p t s) = frequency s \<and> step_size (handlePTT p t s) = step_size s \<and>
   step_index (handlePTT p t s) = step_index s \<and> synth_log (handlePTT p t s) = synth_log s \<and>
   display_log (handlePTT p t s) = display_log s \<and> save_log (handlePTT p t s) = save_log s \<and>
   eeprom (handlePTT p t s) = eeprom s"
  by (simp add: handlePTT_def Let_def)

lemma step_cycle_keeps:
  "frequency (step_cycle s) = frequency s \<and> synth_log (step_cycle s) = synth_log s \<and>
   display_log (step_cycle s) = display_log s \<and> tx_mode (step_cycle s) = tx_mode s \<and>
   tx_en_log (step_cycle s) = tx_en_log s"
  by (simp add: step_cycle_def saveSettings_def Let_def)

lemma step_cycle_index:
  "unat (step_index (step_cycle s)) = (unat (step_index s) + 1) mod 4 \<and>
   step_size (step_cycle s) = step_sizes ! ((unat (step_index s) + 1) mod 4)"
proof -
  have "(unat (step_index s) + 1) mod 4 < 4" by simp
  then have "unat (of_nat ((unat (step_index s) + 1) mod 4) :: u8) =
      (unat (step_index s) + 1) mod 4"
    by (simp add: unat_of_nat)
  then show ?thesis
    by (simp add: step_cycle_def saveSettings_def Let_def num_steps_def step_sizes_def)
qed

lemma step_cycle_valid: "valid s \<Longrightarrow> valid (step_cycle s)"
  using step_cycle_index [of s]
  by (simp add: valid_def step_cycle_keeps num_steps_def step_sizes_def)

lemma handleEncoderSwitch_keeps:
  "frequency (handleEncoderSwitch p t s) = frequency s \<and>
   synth_log (handleEncoderSwitch p t s) = synth_log s \<and>
   display_log (handleEncoderSwitch p t s) = display_log s \<and>
   tx_mode (handleEncoderSwitch p t s) = tx_mode s \<and>
   tx_en_log (handleEncoderSwitch p t s) = tx_en_log s"
  by (simp add: handleEncoderSwitch_def Let_def step_cycle_keeps)

lemma handleEncoderSwitch_valid: "valid s \<Longrightarrow> valid (handleEncoderSwitch p t s)"
proof -
  assume v: "valid s"
  have a: "valid (step_cycle (s\<lparr>last_enc_sw_time := snd t\<rparr>))"
    by (rule step_cycle_valid) (use v in \<open>simp add: valid_def\<close>)
  have b: "\<And>x. valid (x\<lparr>last_sw_state := p\<rparr>) = valid x"
    by (simp add: valid_def)
  show ?thesis
    using v a by (simp add: handleEncoderSwitch_def Let_def b)
qed

lemma handleEncoder_valid: "valid s \<Longrightarrow> valid (handleEncoder d s)"
  using handleEncoder_in_band [of s d] valid_step [of s]
  by (simp add: valid_def handleEncoder_step_size handleEncoder_step_index)

lemma handlePTT_valid: "valid s \<Longrightarrow> valid (handlePTT p t s)"
  by (simp add: valid_def handlePTT_keeps)

lemma loop_valid: "valid s \<Longrightarrow> valid (loop inp s)"
proof -
  assume "valid s"
  then have "valid (handleEncoderSwitch (sw_in inp) (sw_millis inp)
      (handlePTT (ptt_in inp) (ptt_millis inp) (handleEncoder (enc_in inp) s)))"
    by (intro handleEncoderSwitch_valid handlePTT_valid handleEncoder_valid)
  then show ?thesis
    by (simp add: loop_def Let_def updateDisplay_def valid_def)
qed

lemma loop_synth_ok:
  assumes "valid s" and "\<forall>p \<in> set (synth_log s). cmd_ok p"
  shows "\<forall>p \<in> set (synth_log (loop inp s)). cmd_ok p"
proof -
  let ?s1 = "handleEncoder (enc_in inp) s"
  have b: "in_band (frequency ?s1)"
    using handleEncoder_valid [OF assms(1)] by (simp add: valid_def)
  have "cmd_ok ((frequency ?s1 + IF_FREQ) * 100, SI5351_CLK0)"
    using b vfo_word_unat [OF b] by (auto simp: cmd_ok_def)
  then have "\<forall>p \<in> set (synth_log ?s1). cmd_ok p"
    using assms valid_step [OF assms(1)] by (simp add: handleEncoder_log valid_def)
  moreover have "synth_log (loop inp s) = synth_log ?s1"
    by (simp add: loop_def Let_def updateDisplay_def handleEncoderSwitch_keeps handlePTT_keeps)
  ultimately show ?thesis by simp
qed

lemma setup_trx_ok:
  assumes "setup_trx ee d i = Some s"
  shows "valid s \<and> (\<forall>p \<in> set (synth_log s). cmd_ok p)"
proof -
  let ?s1 = "loadSettings ((boot ee)\<lparr>tx_en_log := [False]\<rparr>)"
  have "valid ((boot ee)\<lparr>tx_en_log := [False]\<rparr>)"
    using valid_boot [of ee] by (simp add: valid_def)
  then have v: "valid ?s1" by (rule loadSettings_valid)
  then have b: "in_band (frequency ?s1)" by (simp add: valid_def)
  have l: "synth_log ?s1 = []"
    by (simp add: loadSettings_logs boot_def)
  have s: "s = updateDisplay ((updateVFO ?s1)
      \<lparr>synth_log := synth_log (updateVFO ?s1) @ [(BFO_FREQ * 100, SI5351_CLK1)]\<rparr>)"
    using assms by (simp add: setup_trx_def setupSi5351_def Let_def split: if_splits)
  have "cmd_ok ((frequency ?s1 + IF_FREQ) * 100, SI5351_CLK0)"
    using b vfo_word_unat [OF b] by (auto simp: cmd_ok_def)
  moreover have "cmd_ok (BFO_FREQ * 100, SI5351_CLK1)"
    by (simp add: cmd_ok_def)
  ultimately have "\<forall>p \<in> set (synth_log s). cmd_ok p"
    by (simp add: s updateDisplay_def updateVFO_def l)
  moreover have "valid s"
    using v by (simp add: s updateDisplay_def updateVFO_def valid_def)
  ultimately show ?thesis by simp
qed

lemma fold_loop_ok:
  "valid s \<Longrightarrow> \<forall>p \<in> set (synth_log s). cmd_ok p \<Longrightarrow>
   valid (fold loop inps s) \<and> (\<forall>p \<in> set (synth_log (fold loop inps s)). cmd_ok p)"
proof (induction inps arbitrary: s)
  case Nil
  then show ?case by simp
next
  case (Cons inp inps)
  show ?case
    using Cons.IH [OF loop_valid [OF Cons.prems(1)] loop_synth_ok [OF Cons.prems]]
    by simp
qed

lemma run_ok:
  assumes "run ee inps = Some t"
  shows "valid t \<and> (\<forall>p \<in> set (synth_log t). cmd_ok p)"
proof -
  from assms obtain s0 where s0: "setup_trx ee True True = Some s0"
    and t: "t = fold loop inps s0"
    by (auto simp: run_def)
  from setup_trx_ok [OF s0] fold_loop_ok [of s0 inps] show ?thesis
    by (simp add: t)
qed

text \<open>
  C3. In a state with the frequency in the band and a step size of the table, an
  encoder event that changes the frequency sends exactly one command, to \<open>CLK0\<close>, whose
  value is \<open>(frequency + 9,000,000) \<times> 100\<close> for the new frequency, computed without
  wrapping, and the new frequency is in the band; an event that leaves the frequency
  alone sends nothing. In every state a run of the sketch reaches, each \<open>CLK0\<close> command
  sent so far has the value \<open>(f + 9,000,000) \<times> 100\<close> of some frequency \<open>f\<close> of the band.
  The witness is the scenario of the specification: \<open>TuneDown\<close> from 7,100,000 Hz with
  the 1 kHz step commands 1,609,900,000.
\<close>

theorem vfo_command_exact:
  "(in_band (frequency s) \<and> step_size s \<in> set step_sizes \<longrightarrow>
      (frequency (handleEncoder d s) \<noteq> frequency s \<longrightarrow>
         in_band (frequency (handleEncoder d s)) \<and>
         synth_log (handleEncoder d s) =
           synth_log s @ [((frequency (handleEncoder d s) + IF_FREQ) * 100, SI5351_CLK0)] \<and>
         unat ((frequency (handleEncoder d s) + IF_FREQ) * 100) =
           (unat (frequency (handleEncoder d s)) + 9000000) * 100) \<and>
      (frequency (handleEncoder d s) = frequency s \<longrightarrow>
         synth_log (handleEncoder d s) = synth_log s)) \<and>
   (run ee inps = Some t \<longrightarrow>
      in_band (frequency t) \<and> step_size t \<in> set step_sizes \<and>
      (\<forall>p \<in> set (synth_log t). snd p = SI5351_CLK0 \<longrightarrow>
         (\<exists>f. in_band f \<and> unat (fst p) = (unat f + 9000000) * 100)))"
proof (intro conjI impI)
  assume a: "in_band (frequency s) \<and> step_size s \<in> set step_sizes"
  then have b: "in_band (frequency (handleEncoder d s))"
    by (simp add: handleEncoder_in_band)
  { assume "frequency (handleEncoder d s) \<noteq> frequency s"
    then show "synth_log (handleEncoder d s) =
        synth_log s @ [((frequency (handleEncoder d s) + IF_FREQ) * 100, SI5351_CLK0)]"
      using a by (simp add: handleEncoder_log) }
  { assume "frequency (handleEncoder d s) = frequency s"
    then show "synth_log (handleEncoder d s) = synth_log s"
      using a by (simp add: handleEncoder_log) }
  show "in_band (frequency (handleEncoder d s))" by (rule b)
  show "unat ((frequency (handleEncoder d s) + IF_FREQ) * 100) =
      (unat (frequency (handleEncoder d s)) + 9000000) * 100"
    using b by (rule vfo_word_unat)
next
  assume r: "run ee inps = Some t"
  show "in_band (frequency t)"
    using run_ok [OF r] by (simp add: valid_def)
  show "step_size t \<in> set step_sizes"
    using run_ok [OF r] by (simp add: valid_step)
  show "\<forall>p \<in> set (synth_log t). snd p = SI5351_CLK0 \<longrightarrow>
         (\<exists>f. in_band f \<and> unat (fst p) = (unat f + 9000000) * 100)"
    using run_ok [OF r] by (simp add: cmd_ok_def)
qed

theorem vfo_command_exact_witness:
  "in_band (frequency (boot erased)) \<and> step_size (boot erased) \<in> set step_sizes \<and>
   frequency (boot erased) = 7100000 \<and> step_size (boot erased) = 1000 \<and>
   frequency (handleEncoder DIR_CCW (boot erased)) = 7099000 \<and>
   synth_log (handleEncoder DIR_CCW (boot erased)) = [(1609900000, SI5351_CLK0)] \<and>
   in_band (frequency (handleEncoder DIR_CCW (boot erased))) \<and>
   run erased [tick_ccw] = Some (the (run erased [tick_ccw])) \<and>
   in_band (frequency (the (run erased [tick_ccw]))) \<and>
   synth_log (the (run erased [tick_ccw])) =
     [(1610000000, SI5351_CLK0), (899850000, SI5351_CLK1), (1609900000, SI5351_CLK0)]"
proof -
  have h1: "in_band (frequency (boot erased)) \<and> step_size (boot erased) \<in> set step_sizes"
    by (simp add: boot_def in_band_def consts_defs)
  have h2: "run erased [tick_ccw] = Some (the (run erased [tick_ccw]))"
    by (simp add: run_def setup_trx_def setupSi5351_def Let_def)
  have v0: "frequency (boot erased) = 7100000 \<and> step_size (boot erased) = 1000"
    by (simp add: boot_def consts_defs)
  have v1: "frequency (handleEncoder DIR_CCW (boot erased)) = 7099000"
    by (simp add: handleEncoder_def updateVFO_def boot_def consts_defs)
  have v2: "synth_log (handleEncoder DIR_CCW (boot erased)) = [(1609900000, SI5351_CLK0)]"
    by (simp add: handleEncoder_def updateVFO_def boot_def consts_defs)
  have v3: "synth_log (the (run erased [tick_ccw])) =
      [(1610000000, SI5351_CLK0), (899850000, SI5351_CLK1), (1609900000, SI5351_CLK0)]"
    by (simp add: run_def setup_trx_def setupSi5351_def Let_def loadSettings_def erased_def
        EEPROM_get_u16_def loop_def tick_ccw_def handleEncoder_def updateVFO_def handlePTT_def
        handleEncoderSwitch_def updateDisplay_def boot_def consts_defs)
  have n: "frequency (handleEncoder DIR_CCW (boot erased)) \<noteq> frequency (boot erased)"
    by (simp add: v0 v1)
  show ?thesis
    using h1 h2 v0 v1 v2 v3 n
      vfo_command_exact [of "boot erased" DIR_CCW erased "[tick_ccw]"
        "the (run erased [tick_ccw])"]
    by blast
qed

text \<open>
  C10. The guard of the \<open>DIR_CCW\<close> branch is \<open>frequency \<ge> step_size + FREQ_MIN\<close>. For
  every frequency and every step size below \<open>2^64 - 7,000,000\<close> (the four steps of the
  table are), neither the sum in the guard nor the subtraction, which runs only when the
  guard holds, wraps: the checked evaluation succeeds and gives what the handler gives.
  (The arithmetic of \<open>updateVFO\<close>, which the branch calls next, is the subject of C3.)
\<close>

theorem tune_down_guard_exact:
  assumes "unat (step_size s) < 2 ^ 64 - 7000000"
  shows "tune_down_chk (frequency s) (step_size s) =
           Some (frequency (handleEncoder DIR_CCW s))"
  using assms
  apply (simp add: tune_down_chk_def add_u64_chk_def sub_u64_chk_def handleEncoder_def
      updateVFO_def FREQ_MIN_def)
  apply (auto simp: word_le_nat_alt unat_word_ariths unat_sub_if_size word_size)
  done

theorem tune_down_guard_exact_witness:
  "unat (step_size (boot erased)) < 2 ^ 64 - 7000000 \<and>
   tune_down_chk (frequency (boot erased)) (step_size (boot erased)) = Some 7099000"
proof -
  have h: "unat (step_size (boot erased)) < 2 ^ 64 - 7000000"
    by (simp add: boot_def consts_defs)
  have v: "frequency (handleEncoder DIR_CCW (boot erased)) = 7099000"
    by (simp add: handleEncoder_def updateVFO_def boot_def consts_defs)
  show ?thesis
    using h tune_down_guard_exact [OF h] by (simp only: v simp_thms)
qed

text \<open>
  With the step size \<open>2^64 - 7,000,000\<close> the sum in the guard wraps to 0, the guard
  holds for every frequency, and the subtraction wraps: from 7,100,000 Hz the handler
  goes to 14,100,000 Hz.
\<close>

theorem tune_down_wraps_counterexample:
  "frequency wide_step = 7100000 \<and>
   step_size wide_step = 2 ^ 64 - 7000000 \<and>
   step_size wide_step + FREQ_MIN = 0 \<and>
   tune_down_chk (frequency wide_step) (step_size wide_step) = None \<and>
   frequency (handleEncoder DIR_CCW wide_step) = 14100000"
  by (simp add: tune_down_chk_def add_u64_chk_def sub_u64_chk_def handleEncoder_def
      updateVFO_def wide_step_def boot_def consts_defs)

subsection \<open>Persistence\<close>

lemma EEPROM_u32_round_trip: "EEPROM_get_u32 a (EEPROM_put_u32 a v m) = v"
  apply (simp add: EEPROM_get_u32_def EEPROM_put_u32_def le_byte_def)
  apply (rule bit_word_eqI)
  apply (auto simp: bit_simps not_less)
  apply (rule ccontr)
  apply simp
  done

lemma EEPROM_u16_round_trip: "EEPROM_get_u16 a (EEPROM_put_u16 a v m) = v"
  apply (simp add: EEPROM_get_u16_def EEPROM_put_u16_def le_byte_def)
  apply (rule bit_word_eqI)
  apply (auto simp: bit_simps not_less)
  done

lemma EEPROM_get_u32_cong:
  "m a = m' a \<Longrightarrow> m (a + 1) = m' (a + 1) \<Longrightarrow> m (a + 2) = m' (a + 2) \<Longrightarrow>
   m (a + 3) = m' (a + 3) \<Longrightarrow> EEPROM_get_u32 a m = EEPROM_get_u32 a m'"
  by (simp add: EEPROM_get_u32_def)

text \<open>The three fields sit at offsets that do not overlap: 0..3, 4 and 8..9.\<close>

lemma saved_magic:
  "EEPROM_get_u16 EEPROM_MAGIC_ADDR (eeprom (saveSettings s)) = EEPROM_MAGIC_VALUE"
  by (simp add: saveSettings_def Let_def EEPROM_u16_round_trip)

lemma saved_step:
  "EEPROM_get_u8 EEPROM_STEP_ADDR (eeprom (saveSettings s)) = step_index s"
  by (simp add: saveSettings_def Let_def EEPROM_get_u8_def EEPROM_put_u8_def
      EEPROM_put_u16_def EEPROM_STEP_ADDR_def EEPROM_MAGIC_ADDR_def)

lemma saved_freq:
  "EEPROM_get_u32 EEPROM_FREQ_ADDR (eeprom (saveSettings s)) = ucast (frequency s)"
proof -
  let ?m = "EEPROM_put_u32 EEPROM_FREQ_ADDR (ucast (frequency s)) (eeprom s)"
  have "EEPROM_get_u32 EEPROM_FREQ_ADDR (eeprom (saveSettings s)) =
      EEPROM_get_u32 EEPROM_FREQ_ADDR ?m"
    by (rule EEPROM_get_u32_cong)
      (simp_all add: saveSettings_def Let_def EEPROM_put_u8_def EEPROM_put_u16_def
        EEPROM_STEP_ADDR_def EEPROM_MAGIC_ADDR_def EEPROM_FREQ_ADDR_def)
  then show ?thesis by (simp add: EEPROM_u32_round_trip)
qed

text \<open>A frequency of the band survives the cast to \<open>uint32_t\<close> and back.\<close>

lemma in_band_fits_u32: "in_band f \<Longrightarrow> (ucast (ucast f :: u32) :: u64) = f"
proof -
  assume "in_band f"
  then have "unat f < 2 ^ 32" by (simp add: in_band_unat)
  then have "unat (ucast (ucast f :: u32) :: u64) = unat f"
    by (simp add: unsigned_ucast_eq unsigned_take_bit_eq take_bit_nat_eq_self)
  then show ?thesis by (simp only: word_unat_eq_iff)
qed

lemma unat_widen_u32: "unat (ucast (w :: u32) :: u64) = unat w"
proof -
  have "unat w < 2 ^ 32"
    using unsigned_less [of w] by simp
  then show ?thesis
    by (simp add: unsigned_ucast_eq take_bit_nat_eq_self)
qed

text \<open>
  C4. Take a state \<open>s\<close> whose frequency is in the band and whose step index is below
  the table length, save it, and load from the EEPROM it left, whatever the globals
  \<open>t\<close> hold at that moment (after a power cycle, their initial values): the frequency
  and the step index are those of \<open>s\<close>, and the step size is the table entry at that
  index.
\<close>

theorem save_load_round_trip:
  assumes "in_band (frequency s)" and "unat (step_index s) < num_steps"
  shows "frequency (loadSettings (t\<lparr>eeprom := eeprom (saveSettings s)\<rparr>)) = frequency s \<and>
         step_index (loadSettings (t\<lparr>eeprom := eeprom (saveSettings s)\<rparr>)) = step_index s \<and>
         step_size (loadSettings (t\<lparr>eeprom := eeprom (saveSettings s)\<rparr>)) =
           step_sizes ! unat (step_index s)"
  using assms in_band_fits_u32 [OF assms(1)]
  by (simp add: loadSettings_def Let_def saved_magic saved_step saved_freq in_band_def)

theorem save_load_round_trip_witness:
  "in_band (frequency (handleEncoder DIR_CW (boot erased))) \<and>
   unat (step_index (handleEncoder DIR_CW (boot erased))) < num_steps \<and>
   frequency (handleEncoder DIR_CW (boot erased)) = 7101000 \<and>
   step_index (handleEncoder DIR_CW (boot erased)) = 2 \<and>
   frequency (loadSettings ((boot erased)
      \<lparr>eeprom := eeprom (saveSettings (handleEncoder DIR_CW (boot erased)))\<rparr>)) = 7101000 \<and>
   step_index (loadSettings ((boot erased)
      \<lparr>eeprom := eeprom (saveSettings (handleEncoder DIR_CW (boot erased)))\<rparr>)) = 2"
proof -
  have v: "frequency (handleEncoder DIR_CW (boot erased)) = 7101000 \<and>
      step_index (handleEncoder DIR_CW (boot erased)) = 2"
    by (simp add: handleEncoder_def updateVFO_def boot_def consts_defs)
  have h1: "in_band (frequency (handleEncoder DIR_CW (boot erased)))"
    by (simp add: v in_band_def consts_defs)
  have h2: "unat (step_index (handleEncoder DIR_CW (boot erased))) < num_steps"
    by (simp add: v consts_defs)
  show ?thesis
    using h1 h2 v save_load_round_trip [OF h1 h2, of "boot erased"]
    by (simp only: simp_thms)
qed

text \<open>
  C2, as the sketch has it. \<open>loadSettings\<close>, run at start-up on the initial globals,
  looks at the stored fields only when the magic is the sentinel, and then checks each
  field on its own: the frequency is the stored one when that lies in
  \<open>[FREQ_MIN, FREQ_MAX]\<close> and the default 7,100,000 Hz otherwise; the step index is the
  stored one when that is below the table length and the default 2 otherwise; the step
  size is the table entry at the resulting index. A wrong magic leaves every field at
  its default; a right magic with both fields valid takes the record whole.
\<close>

theorem load_validates_each_field:
  "frequency (loadSettings (boot ee)) =
     (if EEPROM_get_u16 EEPROM_MAGIC_ADDR ee = EEPROM_MAGIC_VALUE \<and>
         7000000 \<le> unat (EEPROM_get_u32 EEPROM_FREQ_ADDR ee) \<and>
         unat (EEPROM_get_u32 EEPROM_FREQ_ADDR ee) \<le> 7200000
      then ucast (EEPROM_get_u32 EEPROM_FREQ_ADDR ee) else FREQ_DEFAULT) \<and>
   step_index (loadSettings (boot ee)) =
     (if EEPROM_get_u16 EEPROM_MAGIC_ADDR ee = EEPROM_MAGIC_VALUE \<and>
         unat (EEPROM_get_u8 EEPROM_STEP_ADDR ee) < length step_sizes
      then EEPROM_get_u8 EEPROM_STEP_ADDR ee else 2) \<and>
   step_size (loadSettings (boot ee)) =
     step_sizes ! unat (step_index (loadSettings (boot ee)))"
  by (simp add: loadSettings_def Let_def boot_def word_le_nat_alt unat_widen_u32
      consts_defs not_le)

theorem load_validates_each_field_witness:
  "frequency (loadSettings (boot image_freq0)) = FREQ_DEFAULT \<and>
   step_index (loadSettings (boot image_freq0)) = 1 \<and>
   step_size (loadSettings (boot image_freq0)) = STEP_100HZ"
proof -
  have m: "EEPROM_get_u16 EEPROM_MAGIC_ADDR image_freq0 = EEPROM_MAGIC_VALUE"
    by (simp add: image_freq0_def EEPROM_u16_round_trip)
  have f: "EEPROM_get_u32 EEPROM_FREQ_ADDR image_freq0 = 0"
    by (simp add: image_freq0_def erased_def EEPROM_get_u32_def
        EEPROM_put_u16_def EEPROM_put_u32_def EEPROM_put_u8_def le_byte_def consts_defs)
  have i: "EEPROM_get_u8 EEPROM_STEP_ADDR image_freq0 = 1"
    by (simp add: image_freq0_def EEPROM_get_u8_def
        EEPROM_put_u16_def EEPROM_put_u8_def consts_defs)
  show ?thesis
    using load_validates_each_field [of image_freq0]
    by (simp add: m f i step_sizes_def STEP_100HZ_def)
qed

text \<open>
  The record with the right magic, the frequency 0 and the step index 1: the frequency
  falls back to the default, the step index stays the stored 1 and the step size is
  100 Hz, not the default index 2 of the initial globals.
\<close>

theorem load_keeps_step_of_bad_frequency:
  "EEPROM_get_u16 EEPROM_MAGIC_ADDR image_freq0 = EEPROM_MAGIC_VALUE \<and>
   EEPROM_get_u32 EEPROM_FREQ_ADDR image_freq0 = 0 \<and>
   EEPROM_get_u8 EEPROM_STEP_ADDR image_freq0 = 1 \<and>
   step_index (loadSettings (boot image_freq0)) = 1 \<and>
   step_size (loadSettings (boot image_freq0)) = 100 \<and>
   frequency (loadSettings (boot image_freq0)) = 7100000 \<and>
   step_index (boot image_freq0) = 2"
  by (simp add: loadSettings_def Let_def image_freq0_def boot_def erased_def
      EEPROM_get_u16_def EEPROM_get_u32_def EEPROM_get_u8_def
      EEPROM_put_u16_def EEPROM_put_u32_def EEPROM_put_u8_def le_byte_def consts_defs)

subsection \<open>The PTT line\<close>

lemma handlePTT_same_level: "last_ptt_state s = p \<Longrightarrow> handlePTT p now s = s"
  by (simp add: handlePTT_def)

lemma handlePTT_rejected:
  "p \<noteq> last_ptt_state s \<Longrightarrow> fst now - last_ptt_time s \<le> debounce_delay \<Longrightarrow>
   handlePTT p now s = s\<lparr>last_ptt_state := p\<rparr>"
  by (simp add: handlePTT_def Let_def not_less)

lemma fold_handlePTT_same_level:
  "last_ptt_state s = p \<Longrightarrow> fold (handlePTT p) ts s = s"
  by (induction ts) (simp_all add: handlePTT_same_level)

lemma handlePTT_unaccepted:
  "\<not> (p \<noteq> last_ptt_state s \<and> debounce_delay < fst now - last_ptt_time s) \<Longrightarrow>
   handlePTT p now s = s\<lparr>last_ptt_state := p\<rparr>"
  by (auto simp: handlePTT_def Let_def)

lemma handlePTT_time:
  "p \<noteq> last_ptt_state s \<Longrightarrow> debounce_delay < fst now - last_ptt_time s \<Longrightarrow>
   last_ptt_time (handlePTT p now s) = snd now"
  by (simp add: handlePTT_def Let_def)

text \<open>
  C7. With \<open>tx_mode\<close> already true, a call of the PTT handler that reads the line low
  (the reading that asserts PTT) leaves \<open>tx_mode\<close>, the writes to the TX enable pin and
  the dirty flag as they were, whatever the clock and the remembered level. And two
  asserts in a row: from receive, a press accepted at the clock readings \<open>now1\<close>
  switches to transmit with one write of \<open>HIGH\<close>; a bounce back to high inside the
  window (readings \<open>nowr\<close>) is dropped; the next low reading, at \<open>now2\<close> after the
  window, passes the debounce check (the time stamp moves to the second reading of
  \<open>now2\<close>) and is a no-op: still exactly the one write, the mode and the dirty flag as
  the first press left them.
\<close>

theorem ptt_assert_idempotent:
  "(tx_mode s \<longrightarrow>
      tx_mode (handlePTT False now s) \<and>
      tx_en_log (handlePTT False now s) = tx_en_log s \<and>
      display_update_needed (handlePTT False now s) = display_update_needed s) \<and>
   (\<not> tx_mode r \<and> last_ptt_state r \<and> debounce_delay < fst now1 - last_ptt_time r \<and>
    fst nowr - snd now1 \<le> debounce_delay \<and> debounce_delay < fst now2 - snd now1 \<longrightarrow>
      tx_mode (handlePTT False now1 r) \<and>
      tx_en_log (handlePTT False now1 r) = tx_en_log r @ [True] \<and>
      last_ptt_time (handlePTT False now2 (handlePTT True nowr (handlePTT False now1 r))) =
        snd now2 \<and>
      tx_mode (handlePTT False now2 (handlePTT True nowr (handlePTT False now1 r))) \<and>
      tx_en_log (handlePTT False now2 (handlePTT True nowr (handlePTT False now1 r))) =
        tx_en_log r @ [True] \<and>
      display_update_needed (handlePTT False now2 (handlePTT True nowr (handlePTT False now1 r))) =
        display_update_needed (handlePTT False now1 r))"
proof (intro conjI impI)
  assume "tx_mode s"
  then show "tx_mode (handlePTT False now s)"
    and "tx_en_log (handlePTT False now s) = tx_en_log s"
    and "display_update_needed (handlePTT False now s) = display_update_needed s"
    by (simp_all add: handlePTT_def Let_def)
next
  assume a: "\<not> tx_mode r \<and> last_ptt_state r \<and> debounce_delay < fst now1 - last_ptt_time r \<and>
    fst nowr - snd now1 \<le> debounce_delay \<and> debounce_delay < fst now2 - snd now1"
  define u where "u = r\<lparr>last_ptt_time := snd now1, tx_mode := True,
      tx_en_log := tx_en_log r @ [True], display_update_needed := True,
      last_ptt_state := False\<rparr>"
  have s1: "handlePTT False now1 r = u"
    using a by (simp add: u_def handlePTT_def Let_def)
  have s2: "handlePTT True nowr u = u\<lparr>last_ptt_state := True\<rparr>"
    by (rule handlePTT_rejected) (use a in \<open>simp_all add: u_def\<close>)
  have s3: "handlePTT False now2 (u\<lparr>last_ptt_state := True\<rparr>) =
      u\<lparr>last_ptt_time := snd now2, last_ptt_state := False\<rparr>"
    using a by (simp add: u_def handlePTT_def Let_def)
  show "tx_mode (handlePTT False now1 r)"
    and "tx_en_log (handlePTT False now1 r) = tx_en_log r @ [True]"
    by (simp_all add: s1 u_def)
  show "last_ptt_time (handlePTT False now2 (handlePTT True nowr (handlePTT False now1 r))) =
      snd now2"
    and "tx_mode (handlePTT False now2 (handlePTT True nowr (handlePTT False now1 r)))"
    and "tx_en_log (handlePTT False now2 (handlePTT True nowr (handlePTT False now1 r))) =
      tx_en_log r @ [True]"
    and "display_update_needed
        (handlePTT False now2 (handlePTT True nowr (handlePTT False now1 r))) =
      display_update_needed (handlePTT False now1 r)"
    by (simp_all add: s1 s2 s3) (simp_all add: u_def)
qed

theorem ptt_assert_idempotent_witness:
  "tx_mode keyed \<and>
   tx_mode (handlePTT False (500, 500) keyed) \<and>
   tx_en_log (handlePTT False (500, 500) keyed) = tx_en_log keyed \<and>
   \<not> tx_mode (boot erased) \<and> last_ptt_state (boot erased) \<and>
   debounce_delay < 100 - last_ptt_time (boot erased) \<and>
   (120 :: u32) - 101 \<le> debounce_delay \<and> debounce_delay < (200 :: u32) - 101 \<and>
   tx_en_log (handlePTT False (100, 101) (boot erased)) = [True] \<and>
   last_ptt_time (handlePTT False (200, 200)
      (handlePTT True (120, 120) (handlePTT False (100, 101) (boot erased)))) = 200 \<and>
   tx_mode (handlePTT False (200, 200)
      (handlePTT True (120, 120) (handlePTT False (100, 101) (boot erased)))) \<and>
   tx_en_log (handlePTT False (200, 200)
      (handlePTT True (120, 120) (handlePTT False (100, 101) (boot erased)))) = [True]"
proof -
  have h1: "tx_mode keyed"
    by (simp add: keyed_def handlePTT_def Let_def boot_def debounce_delay_def)
  have h2: "\<not> tx_mode (boot erased) \<and> last_ptt_state (boot erased) \<and>
      debounce_delay < 100 - last_ptt_time (boot erased) \<and>
      (120 :: u32) - 101 \<le> debounce_delay \<and> debounce_delay < (200 :: u32) - 101"
    by (simp add: boot_def debounce_delay_def)
  have e: "tx_en_log (boot erased) = []"
    by (simp add: boot_def)
  have k: "tx_en_log keyed = [True]"
    by (simp add: keyed_def handlePTT_def Let_def boot_def debounce_delay_def)
  show ?thesis
    using h1 h2
      ptt_assert_idempotent [where s = keyed and now = "(500, 500)" and r = "boot erased"
        and ?now1.0 = "(100, 101)" and nowr = "(120, 120)" and ?now2.0 = "(200, 200)"]
    by (simp add: e k)
qed


text \<open>
  C9. A level change on the PTT line that the debounce window rejects is still stored
  as the remembered level. However long the line then stays at this level, and whenever
  it is sampled (\<open>ts\<close> lists the clock readings of the later calls), the handler sees no
  change and does nothing: the mode, the TX enable pin and the time stamp stay as they
  were. With \<open>p\<close> the released level and \<open>tx_mode\<close> true, a release within 50 ms of the
  press leaves the transmitter keyed.
\<close>

theorem ptt_change_in_window_is_lost:
  assumes "p \<noteq> last_ptt_state s" and "fst now - last_ptt_time s \<le> debounce_delay"
  shows "last_ptt_state (handlePTT p now s) = p \<and>
         tx_mode (handlePTT p now s) = tx_mode s \<and>
         tx_en_log (handlePTT p now s) = tx_en_log s \<and>
         last_ptt_time (handlePTT p now s) = last_ptt_time s \<and>
         (\<forall>ts. fold (handlePTT p) ts (handlePTT p now s) = handlePTT p now s)"
proof -
  have r: "handlePTT p now s = s\<lparr>last_ptt_state := p\<rparr>"
    using assms by (rule handlePTT_rejected)
  have "last_ptt_state (s\<lparr>last_ptt_state := p\<rparr>) = p" by simp
  then have "\<forall>ts. fold (handlePTT p) ts (s\<lparr>last_ptt_state := p\<rparr>) = s\<lparr>last_ptt_state := p\<rparr>"
    by (simp add: fold_handlePTT_same_level)
  then show ?thesis by (simp add: r)
qed

theorem ptt_change_in_window_is_lost_witness:
  "True \<noteq> last_ptt_state keyed \<and> fst (120, 120) - last_ptt_time keyed \<le> debounce_delay \<and>
   tx_mode keyed \<and> tx_en_log keyed = [True] \<and>
   last_ptt_state (handlePTT True (120, 120) keyed) \<and>
   tx_mode (handlePTT True (120, 120) keyed) \<and>
   tx_en_log (handlePTT True (120, 120) keyed) = [True] \<and>
   tx_mode (fold (handlePTT True) [(200, 200), (1000, 1001), (100000, 100000)] (handlePTT True (120, 120) keyed))"
proof -
  have h1: "True \<noteq> last_ptt_state keyed"
    by (simp add: keyed_def handlePTT_def Let_def boot_def debounce_delay_def)
  have h2: "fst (120, 120) - last_ptt_time keyed \<le> debounce_delay"
    by (simp add: keyed_def handlePTT_def Let_def boot_def debounce_delay_def)
  have k: "tx_mode keyed \<and> tx_en_log keyed = [True]"
    by (simp add: keyed_def handlePTT_def Let_def boot_def debounce_delay_def)
  have c: "last_ptt_state (handlePTT True (120, 120) keyed) = True \<and>
         tx_mode (handlePTT True (120, 120) keyed) = tx_mode keyed \<and>
         tx_en_log (handlePTT True (120, 120) keyed) = tx_en_log keyed \<and>
         last_ptt_time (handlePTT True (120, 120) keyed) = last_ptt_time keyed \<and>
         (\<forall>ts. fold (handlePTT True) ts (handlePTT True (120, 120) keyed) = handlePTT True (120, 120) keyed)"
    by (rule ptt_change_in_window_is_lost [OF h1 h2])
  then have f: "fold (handlePTT True) [(200, 200), (1000, 1001), (100000, 100000)] (handlePTT True (120, 120) keyed) =
      handlePTT True (120, 120) keyed"
    by blast
  show ?thesis
    using h1 h2 k c by (simp add: f del: fold.simps)
qed

subsection \<open>The encoder switch\<close>

lemma handleEncoderSwitch_rejected:
  "\<not> (sw = False \<and> last_sw_state s \<and> debounce_delay < fst now - last_enc_sw_time s) \<Longrightarrow>
   handleEncoderSwitch sw now s = s\<lparr>last_sw_state := sw\<rparr>"
  by (auto simp: handleEncoderSwitch_def Let_def)

lemma handleEncoderSwitch_accepted:
  "last_sw_state s \<Longrightarrow> debounce_delay < fst now - last_enc_sw_time s \<Longrightarrow>
   handleEncoderSwitch False now s =
     (step_cycle (s\<lparr>last_enc_sw_time := snd now\<rparr>))\<lparr>last_sw_state := False\<rparr>"
  by (simp add: handleEncoderSwitch_def Let_def)

lemma step_cycle_bookkeeping:
  "last_enc_sw_time (step_cycle s) = last_enc_sw_time s \<and>
   last_sw_state (step_cycle s) = last_sw_state s \<and>
   save_log (step_cycle s) = save_log s @ [(ucast (frequency s), step_index (step_cycle s))] \<and>
   display_update_needed (step_cycle s)"
  by (simp add: step_cycle_def saveSettings_def Let_def)

lemma millis_elapsed:
  assumes "t0 \<le> t"
  shows "unat ((of_nat t :: u32) - of_nat t0) \<le> t - t0"
proof -
  have "(of_nat t :: u32) - of_nat t0 = of_nat (t - t0)"
    using assms by (simp add: of_nat_diff)
  then show ?thesis
    by (simp add: unat_of_nat)
qed

lemma window_real_time:
  assumes "t0 \<le> t" and "debounce_delay < (of_nat t :: u32) - of_nat t0"
  shows "50 < t - t0"
proof -
  have "50 < unat ((of_nat t :: u32) - of_nat t0)"
    using assms(2) by (simp add: debounce_delay_def word_less_nat_alt)
  with millis_elapsed [OF assms(1)] show ?thesis by simp
qed

text \<open>
  C6. A call of either handler that does anything beyond remembering the level it read
  saw, at its first reading of the clock, more than \<open>debounce_delay\<close> (50 ms, in the
  32-bit arithmetic of \<open>millis()\<close>) since the time stamp of the line, and it moves the
  time stamp to its second reading: the stamp is the time of the last accepted
  transition. In real time \<open>t\<close> (milliseconds since start, of which \<open>millis()\<close> keeps the
  low 32 bits), a transition accepted on a reading at \<open>t\<close> after a stamp taken at
  \<open>t0 \<le> t\<close> has \<open>50 < t - t0\<close>. Two presses of the encoder switch, the first
  accepted with the stamp \<open>snd now1\<close>, a release at any time \<open>nowr\<close>, the second read
  at \<open>fst now2\<close> no more than 50 ms after the stamp: one step-table advance and one
  saved record, the second press changes neither.
\<close>

theorem debounce_window:
  "(handleEncoderSwitch sw now s \<noteq> s\<lparr>last_sw_state := sw\<rparr> \<longrightarrow>
      debounce_delay < fst now - last_enc_sw_time s \<and>
      last_enc_sw_time (handleEncoderSwitch sw now s) = snd now) \<and>
   (handlePTT p now s \<noteq> s\<lparr>last_ptt_state := p\<rparr> \<longrightarrow>
      debounce_delay < fst now - last_ptt_time s \<and>
      last_ptt_time (handlePTT p now s) = snd now) \<and>
   (last_enc_sw_time s = of_nat t0 \<and> t0 \<le> t \<and>
    handleEncoderSwitch sw (of_nat t, c) s \<noteq> s\<lparr>last_sw_state := sw\<rparr> \<longrightarrow> 50 < t - t0) \<and>
   (last_ptt_time s = of_nat t0 \<and> t0 \<le> t \<and>
    handlePTT p (of_nat t, c) s \<noteq> s\<lparr>last_ptt_state := p\<rparr> \<longrightarrow> 50 < t - t0) \<and>
   (last_sw_state s \<and> debounce_delay < fst now1 - last_enc_sw_time s \<and>
    fst now2 - snd now1 \<le> debounce_delay \<longrightarrow>
      save_log (handleEncoderSwitch False now1 s) =
        save_log s @ [(ucast (frequency s), step_index (handleEncoderSwitch False now1 s))] \<and>
      unat (step_index (handleEncoderSwitch False now1 s)) = (unat (step_index s) + 1) mod 4 \<and>
      save_log (handleEncoderSwitch False now2
          (handleEncoderSwitch True nowr (handleEncoderSwitch False now1 s))) =
        save_log (handleEncoderSwitch False now1 s) \<and>
      step_index (handleEncoderSwitch False now2
          (handleEncoderSwitch True nowr (handleEncoderSwitch False now1 s))) =
        step_index (handleEncoderSwitch False now1 s) \<and>
      step_size (handleEncoderSwitch False now2
          (handleEncoderSwitch True nowr (handleEncoderSwitch False now1 s))) =
        step_size (handleEncoderSwitch False now1 s))"
proof -
  have sw: "\<And>now. handleEncoderSwitch sw now s \<noteq> s\<lparr>last_sw_state := sw\<rparr> \<Longrightarrow>
      debounce_delay < fst now - last_enc_sw_time s \<and>
      last_enc_sw_time (handleEncoderSwitch sw now s) = snd now"
  proof -
    fix now
    assume n: "handleEncoderSwitch sw now s \<noteq> s\<lparr>last_sw_state := sw\<rparr>"
    then have c: "sw = False \<and> last_sw_state s \<and>
        debounce_delay < fst now - last_enc_sw_time s"
      using handleEncoderSwitch_rejected [of sw s now] by blast
    then show "debounce_delay < fst now - last_enc_sw_time s \<and>
      last_enc_sw_time (handleEncoderSwitch sw now s) = snd now"
      by (simp add: handleEncoderSwitch_accepted step_cycle_bookkeeping)
  qed
  have ptt: "\<And>now. handlePTT p now s \<noteq> s\<lparr>last_ptt_state := p\<rparr> \<Longrightarrow>
      debounce_delay < fst now - last_ptt_time s \<and>
      last_ptt_time (handlePTT p now s) = snd now"
  proof -
    fix now
    assume n: "handlePTT p now s \<noteq> s\<lparr>last_ptt_state := p\<rparr>"
    then have c: "p \<noteq> last_ptt_state s \<and> debounce_delay < fst now - last_ptt_time s"
      using handlePTT_unaccepted [of p s now] by blast
    then show "debounce_delay < fst now - last_ptt_time s \<and>
        last_ptt_time (handlePTT p now s) = snd now"
      by (simp add: handlePTT_time)
  qed
  have two: "last_sw_state s \<and> debounce_delay < fst now1 - last_enc_sw_time s \<and>
    fst now2 - snd now1 \<le> debounce_delay \<Longrightarrow>
      save_log (handleEncoderSwitch False now1 s) =
        save_log s @ [(ucast (frequency s), step_index (handleEncoderSwitch False now1 s))] \<and>
      unat (step_index (handleEncoderSwitch False now1 s)) = (unat (step_index s) + 1) mod 4 \<and>
      handleEncoderSwitch False now2
          (handleEncoderSwitch True nowr (handleEncoderSwitch False now1 s)) =
        (handleEncoderSwitch False now1 s)"
  proof -
    assume a: "last_sw_state s \<and> debounce_delay < fst now1 - last_enc_sw_time s \<and>
      fst now2 - snd now1 \<le> debounce_delay"
    define u where "u = handleEncoderSwitch False now1 s"
    have u: "u = (step_cycle (s\<lparr>last_enc_sw_time := snd now1\<rparr>))\<lparr>last_sw_state := False\<rparr>"
      using a by (simp add: u_def handleEncoderSwitch_accepted)
    have ut: "last_enc_sw_time u = snd now1" and ul: "last_sw_state u = False"
      by (simp_all add: u step_cycle_bookkeeping)
    have r: "handleEncoderSwitch True nowr u = u\<lparr>last_sw_state := True\<rparr>"
      by (rule handleEncoderSwitch_rejected) simp
    have "handleEncoderSwitch False now2 (u\<lparr>last_sw_state := True\<rparr>) =
        u\<lparr>last_sw_state := True\<rparr>\<lparr>last_sw_state := False\<rparr>"
      by (rule handleEncoderSwitch_rejected) (use a in \<open>simp add: ut not_less\<close>)
    also have "\<dots> = u" using ul by simp
    finally have p2: "handleEncoderSwitch False now2 (u\<lparr>last_sw_state := True\<rparr>) = u" .
    have "save_log u = save_log s @ [(ucast (frequency s), step_index u)] \<and>
        unat (step_index u) = (unat (step_index s) + 1) mod 4"
      using step_cycle_index [of "s\<lparr>last_enc_sw_time := snd now1\<rparr>"]
      by (simp add: u step_cycle_bookkeeping)
    then show ?thesis
      by (simp add: u_def [symmetric] r p2)
  qed
  have rt_sw: "last_enc_sw_time s = of_nat t0 \<and> t0 \<le> t \<and>
      handleEncoderSwitch sw (of_nat t, c) s \<noteq> s\<lparr>last_sw_state := sw\<rparr> \<Longrightarrow> 50 < t - t0"
    using sw [of "(of_nat t, c)"] window_real_time [of t0 t]
    by (simp del: of_nat_diff)
  have rt_ptt: "last_ptt_time s = of_nat t0 \<and> t0 \<le> t \<and>
      handlePTT p (of_nat t, c) s \<noteq> s\<lparr>last_ptt_state := p\<rparr> \<Longrightarrow> 50 < t - t0"
    using ptt [of "(of_nat t, c)"] window_real_time [of t0 t]
    by (simp del: of_nat_diff)
  show ?thesis
  proof (intro conjI impI)
    assume "last_sw_state s \<and> debounce_delay < fst now1 - last_enc_sw_time s \<and>
      fst now2 - snd now1 \<le> debounce_delay"
    note r = two [OF this]
    show "save_log (handleEncoderSwitch False now1 s) =
        save_log s @ [(ucast (frequency s), step_index (handleEncoderSwitch False now1 s))]"
      and "unat (step_index (handleEncoderSwitch False now1 s)) =
        (unat (step_index s) + 1) mod 4"
      using r by simp_all
    show "save_log (handleEncoderSwitch False now2
          (handleEncoderSwitch True nowr (handleEncoderSwitch False now1 s))) =
        save_log (handleEncoderSwitch False now1 s)"
      and "step_index (handleEncoderSwitch False now2
          (handleEncoderSwitch True nowr (handleEncoderSwitch False now1 s))) =
        step_index (handleEncoderSwitch False now1 s)"
      and "step_size (handleEncoderSwitch False now2
          (handleEncoderSwitch True nowr (handleEncoderSwitch False now1 s))) =
        step_size (handleEncoderSwitch False now1 s)"
      using r by simp_all
  qed (use sw [of now] ptt [of now] rt_sw rt_ptt in blast)+
qed

theorem debounce_window_witness:
  "handleEncoderSwitch False (100, 101) (boot erased) \<noteq> (boot erased)\<lparr>last_sw_state := False\<rparr> \<and>
   handlePTT False (100, 101) (boot erased) \<noteq> (boot erased)\<lparr>last_ptt_state := False\<rparr> \<and>
   last_enc_sw_time (boot erased) = of_nat 0 \<and> last_ptt_time (boot erased) = of_nat 0 \<and>
   (0 :: nat) \<le> 100 \<and>
   last_sw_state (boot erased) \<and> debounce_delay < 100 - last_enc_sw_time (boot erased) \<and>
   (120 :: u32) - 101 \<le> debounce_delay \<and>
   last_enc_sw_time (handleEncoderSwitch False (100, 101) (boot erased)) = 101 \<and>
   last_ptt_time (handlePTT False (100, 101) (boot erased)) = 101 \<and>
   (50 :: nat) < 100 - 0 \<and>
   save_log (handleEncoderSwitch False (100, 101) (boot erased)) = [(7100000, 3)] \<and>
   save_log (handleEncoderSwitch False (120, 120)
       (handleEncoderSwitch True (110, 110)
          (handleEncoderSwitch False (100, 101) (boot erased)))) = [(7100000, 3)] \<and>
   step_index (handleEncoderSwitch False (120, 120)
       (handleEncoderSwitch True (110, 110)
          (handleEncoderSwitch False (100, 101) (boot erased)))) = 3"
proof -
  have i: "step_index (handleEncoderSwitch False (100, 101) (boot erased)) = 3"
    by (simp add: handleEncoderSwitch_def step_cycle_def saveSettings_def Let_def boot_def
        consts_defs)
  have l: "save_log (handleEncoderSwitch False (100, 101) (boot erased)) = [(7100000, 3)]"
    by (simp add: handleEncoderSwitch_def step_cycle_def saveSettings_def Let_def boot_def
        consts_defs)
  have "step_index (handleEncoderSwitch False (100, 101) (boot erased)) \<noteq>
      step_index ((boot erased)\<lparr>last_sw_state := False\<rparr>)"
    by (simp add: i) (simp add: boot_def)
  then have h1: "handleEncoderSwitch False (100, 101) (boot erased) \<noteq>
      (boot erased)\<lparr>last_sw_state := False\<rparr>"
    by metis
  have "tx_mode (handlePTT False (100, 101) (boot erased)) \<noteq>
      tx_mode ((boot erased)\<lparr>last_ptt_state := False\<rparr>)"
    by (simp add: handlePTT_def Let_def boot_def debounce_delay_def)
  then have h2: "handlePTT False (100, 101) (boot erased) \<noteq>
      (boot erased)\<lparr>last_ptt_state := False\<rparr>"
    by metis
  have h3: "last_enc_sw_time (boot erased) = of_nat 0 \<and> last_ptt_time (boot erased) = of_nat 0 \<and>
      last_sw_state (boot erased) \<and> debounce_delay < 100 - last_enc_sw_time (boot erased) \<and>
      (120 :: u32) - 101 \<le> debounce_delay"
    by (simp add: boot_def debounce_delay_def)
  show ?thesis
    using h1 h2 h3
      debounce_window [where sw = False and now = "(100, 101)" and s = "boot erased"
        and p = False and ?t0.0 = 0 and t = 100 and c = 101 and ?now1.0 = "(100, 101)"
        and ?now2.0 = "(120, 120)" and nowr = "(110, 110)"]
    by (simp add: i l)
qed


lemma step_cycle_four:
  "unat (step_index s) < 4 \<Longrightarrow>
   unat (step_index (step_cycle (step_cycle (step_cycle (step_cycle s))))) = unat (step_index s)"
  by (simp add: step_cycle_index) presburger

text \<open>
  C8. \<open>step_cycle\<close> is the body of an accepted press of the encoder switch (last
  conjunct). Applied \<open>num_steps = 4\<close> times to a state whose step index is below the
  table length, it brings the step index back and the step size to the table entry at
  that index, which is the original step size when that was the table entry; after each
  single application, from any state, the step index is the old one plus one modulo the
  table length, it is below the table length, and the step size is the table entry at
  it.
\<close>

theorem step_cycle_cyclic:
  "(unat (step_index s) < num_steps \<longrightarrow>
      step_index ((step_cycle ^^ num_steps) s) = step_index s \<and>
      step_size ((step_cycle ^^ num_steps) s) = step_sizes ! unat (step_index s) \<and>
      (step_size s = step_sizes ! unat (step_index s) \<longrightarrow>
         step_size ((step_cycle ^^ num_steps) s) = step_size s)) \<and>
   unat (step_index (step_cycle s)) = (unat (step_index s) + 1) mod num_steps \<and>
   unat (step_index (step_cycle s)) < num_steps \<and>
   step_size (step_cycle s) = step_sizes ! unat (step_index (step_cycle s)) \<and>
   (last_sw_state s \<and> debounce_delay < fst now - last_enc_sw_time s \<longrightarrow>
      handleEncoderSwitch False now s =
        (step_cycle (s\<lparr>last_enc_sw_time := snd now\<rparr>))\<lparr>last_sw_state := False\<rparr>)"
proof -
  have n: "num_steps = Suc (Suc (Suc (Suc 0)))"
    by (simp add: num_steps_def step_sizes_def)
  have n4: "num_steps = 4"
    by (simp add: num_steps_def step_sizes_def)
  have one: "unat (step_index (step_cycle s)) = (unat (step_index s) + 1) mod num_steps \<and>
      unat (step_index (step_cycle s)) < num_steps \<and>
      step_size (step_cycle s) = step_sizes ! unat (step_index (step_cycle s))"
    using step_cycle_index [of s] by (simp add: n4)
  { assume a: "unat (step_index s) < num_steps"
    let ?t = "step_cycle (step_cycle (step_cycle s))"
    have f: "(step_cycle ^^ num_steps) s = step_cycle ?t"
      by (simp add: n)
    have u: "unat (step_index (step_cycle ?t)) = unat (step_index s)"
      using a by (simp add: n4 step_cycle_four)
    then have i: "step_index (step_cycle ?t) = step_index s"
      by (simp only: word_unat_eq_iff)
    have "step_size (step_cycle ?t) = step_sizes ! unat (step_index (step_cycle ?t))"
      using step_cycle_index [of ?t] by simp
    then have "step_size (step_cycle ?t) = step_sizes ! unat (step_index s)"
      by (simp only: u)
    with i f have "step_index ((step_cycle ^^ num_steps) s) = step_index s \<and>
      step_size ((step_cycle ^^ num_steps) s) = step_sizes ! unat (step_index s)"
      by simp }
  with one show ?thesis
    by (simp add: handleEncoderSwitch_accepted)
qed

theorem step_cycle_cyclic_witness:
  "unat (step_index (boot erased)) < num_steps \<and>
   step_index (boot erased) = 2 \<and> step_size (boot erased) = 1000 \<and>
   step_index ((step_cycle ^^ num_steps) (boot erased)) = 2 \<and>
   step_size ((step_cycle ^^ num_steps) (boot erased)) = 1000 \<and>
   step_index (step_cycle (boot erased)) = 3 \<and>
   step_size (step_cycle (boot erased)) = 10000 \<and>
   step_index (step_cycle (step_cycle (boot erased))) = 0 \<and>
   last_sw_state (boot erased) \<and> debounce_delay < 100 - last_enc_sw_time (boot erased) \<and>
   handleEncoderSwitch False (100, 101) (boot erased) =
     (step_cycle ((boot erased)\<lparr>last_enc_sw_time := 101\<rparr>))\<lparr>last_sw_state := False\<rparr>"
proof -
  have h1: "unat (step_index (boot erased)) < num_steps \<and> step_index (boot erased) = 2 \<and>
      step_size (boot erased) = 1000"
    by (simp add: boot_def consts_defs)
  have h2: "last_sw_state (boot erased) \<and> debounce_delay < 100 - last_enc_sw_time (boot erased)"
    by (simp add: boot_def debounce_delay_def)
  have v: "step_index (step_cycle (boot erased)) = 3 \<and>
      step_size (step_cycle (boot erased)) = 10000 \<and>
      step_index (step_cycle (step_cycle (boot erased))) = 0"
    by (simp add: step_cycle_def saveSettings_def Let_def boot_def consts_defs)
  have t: "step_sizes ! 2 = 1000 \<and> 2 < num_steps"
    by (simp add: consts_defs)
  show ?thesis
    using h1 h2 v step_cycle_cyclic [of "boot erased" "(100, 101)"]
    by (simp add: t)
qed

subsection \<open>Rendering\<close>

lemma handlePTT_dirty:
  "display_update_needed (handlePTT p t s) =
     (display_update_needed s \<or> tx_mode (handlePTT p t s) \<noteq> tx_mode s)"
  by (auto simp: handlePTT_def Let_def)

lemma step_sizes_distinct: "distinct step_sizes"
  by (simp add: consts_defs)

lemma step_cycle_changes_step:
  assumes "valid s"
  shows "step_size (step_cycle s) \<noteq> step_size s"
proof -
  let ?i = "unat (step_index s)"
  have i: "?i < 4" and s: "step_size s = step_sizes ! ?i"
    using assms by (simp_all add: valid_def num_steps_def step_sizes_def)
  have "(?i + 1) mod 4 \<noteq> ?i" using i by presburger
  moreover have "(?i + 1) mod 4 < length step_sizes" "?i < length step_sizes"
    using i by (simp_all add: step_sizes_def)
  ultimately have "step_sizes ! ((?i + 1) mod 4) \<noteq> step_sizes ! ?i"
    using step_sizes_distinct by (simp add: nth_eq_iff_index_eq)
  then show ?thesis
    using step_cycle_index [of s] s by simp
qed

lemma handleEncoderSwitch_dirty:
  assumes "valid s"
  shows "display_update_needed (handleEncoderSwitch p t s) =
     (display_update_needed s \<or> step_size (handleEncoderSwitch p t s) \<noteq> step_size s)"
proof (cases "p = False \<and> last_sw_state s \<and> debounce_delay < fst t - last_enc_sw_time s")
  case True
  have v: "valid (s\<lparr>last_enc_sw_time := snd t\<rparr>)"
    using assms by (simp add: valid_def)
  show ?thesis
    using True step_cycle_changes_step [OF v]
    by (simp add: handleEncoderSwitch_accepted step_cycle_bookkeeping)
next
  case False
  then show ?thesis
    by (simp add: handleEncoderSwitch_rejected)
qed

lemma loop_renders_iff_changed:
  assumes "valid s" and "\<not> display_update_needed s"
  shows "\<not> display_update_needed (loop inp s) \<and>
         display_log (loop inp s) =
           (if frame (loop inp s) \<noteq> frame s
            then display_log s @ [frame (loop inp s)] else display_log s)"
proof -
  let ?s1 = "handleEncoder (enc_in inp) s"
  let ?s2 = "handlePTT (ptt_in inp) (ptt_millis inp) ?s1"
  let ?s3 = "handleEncoderSwitch (sw_in inp) (sw_millis inp) ?s2"
  have v2: "valid ?s2"
    using assms(1) by (intro handlePTT_valid handleEncoder_valid)
  have d1: "display_update_needed ?s1 = (frequency ?s1 \<noteq> frequency s)"
    using assms valid_step [OF assms(1)] by (simp add: handleEncoder_dirty valid_def)
  have d2: "display_update_needed ?s2 = (display_update_needed ?s1 \<or> tx_mode ?s2 \<noteq> tx_mode ?s1)"
    by (rule handlePTT_dirty)
  have d3: "display_update_needed ?s3 = (display_update_needed ?s2 \<or> step_size ?s3 \<noteq> step_size ?s2)"
    using v2 by (rule handleEncoderSwitch_dirty)
  have k: "frequency ?s3 = frequency ?s1" "tx_mode ?s3 = tx_mode ?s2" "tx_mode ?s1 = tx_mode s"
    "step_size ?s2 = step_size s" "display_log ?s3 = display_log s"
    by (simp_all add: handleEncoderSwitch_keeps handlePTT_keeps handleEncoder_step_size)
      (simp_all add: handleEncoder_def updateVFO_def)
  have d: "display_update_needed ?s3 = (frame ?s3 \<noteq> frame s)"
    using d1 d2 d3 k by (auto simp: frame_def)
  show ?thesis
    using d k(5) by (simp add: loop_def Let_def updateDisplay_def frame_def)
qed

lemma loop_dirty_renders:
  "display_update_needed s \<Longrightarrow>
   \<not> display_update_needed (loop inp s) \<and>
   display_log (loop inp s) = display_log s @ [frame (loop inp s)]"
proof -
  assume d: "display_update_needed s"
  let ?s1 = "handleEncoder (enc_in inp) s"
  let ?s2 = "handlePTT (ptt_in inp) (ptt_millis inp) ?s1"
  let ?s3 = "handleEncoderSwitch (sw_in inp) (sw_millis inp) ?s2"
  have "display_update_needed ?s1"
    using d by (simp add: handleEncoder_def updateVFO_def)
  then have "display_update_needed ?s2"
    by (simp add: handlePTT_dirty)
  then have d3: "display_update_needed ?s3"
    by (cases "sw_in inp = False \<and> last_sw_state ?s2 \<and>
          debounce_delay < fst (sw_millis inp) - last_enc_sw_time ?s2")
      (simp_all add: handleEncoderSwitch_accepted handleEncoderSwitch_rejected
        step_cycle_bookkeeping)
  have "display_log ?s3 = display_log s"
    by (simp add: handleEncoderSwitch_keeps handlePTT_keeps)
      (simp add: handleEncoder_def updateVFO_def)
  with d3 show ?thesis
    by (simp add: loop_def Let_def updateDisplay_def frame_def)
qed

lemma loop_display_synced:
  assumes "valid s" and "display_log s \<noteq> []" and "last (display_log s) = frame s"
  shows "\<not> display_update_needed (loop inp s) \<and> display_log (loop inp s) \<noteq> [] \<and>
         last (display_log (loop inp s)) = frame (loop inp s)"
proof (cases "display_update_needed s")
  case True
  then show ?thesis
    using loop_dirty_renders [of s inp] by simp
next
  case False
  then show ?thesis
    using loop_renders_iff_changed [OF assms(1) False, of inp] assms(2,3)
    by (simp split: if_splits)
qed

lemma first_loop_always_renders:
  assumes "setup_trx ee d i = Some s0"
  shows "display_update_needed s0 \<and> display_log s0 = [frame s0] \<and>
         display_log (loop inp s0) = [frame s0, frame (loop inp s0)]"
proof -
  let ?s1 = "loadSettings ((boot ee)\<lparr>tx_en_log := [False]\<rparr>)"
  have s: "s0 = updateDisplay ((updateVFO ?s1)
      \<lparr>synth_log := synth_log (updateVFO ?s1) @ [(BFO_FREQ * 100, SI5351_CLK1)]\<rparr>)"
    using assms by (simp add: setup_trx_def setupSi5351_def Let_def split: if_splits)
  have d: "display_update_needed s0"
    by (simp add: s updateDisplay_def updateVFO_def loadSettings_logs boot_def)
  have l: "display_log s0 = [frame s0]"
    by (simp add: s updateDisplay_def updateVFO_def loadSettings_logs frame_def boot_def)
  show ?thesis
    using loop_dirty_renders [OF d, of inp] d l by simp
qed

text \<open>
  C5, at the first iteration. Start-up on an erased EEPROM draws the frame
  (7,100,000 Hz, 1 kHz, receive) at the end of \<open>setup()\<close> and leaves
  \<open>display_update_needed\<close> at its initial \<open>true\<close>; the first iteration of \<open>loop()\<close>,
  with the encoder still, the PTT line and the switch high, draws the same frame again
  (whatever the EEPROM and the inputs, the first iteration draws:
  \<open>first_loop_always_renders\<close>).
  After any iteration the flag is clear and the last frame drawn is the current one
  (\<open>loop_display_synced\<close>), and from a clear flag an iteration draws exactly when it
  changed the frame (\<open>loop_renders_iff_changed\<close>): the redundant drawing is confined
  to the first iteration.
\<close>

theorem first_iteration_redraws_same_frame:
  "setup_trx erased True True \<noteq> None \<and>
   display_update_needed (the (setup_trx erased True True)) \<and>
   display_log (the (setup_trx erased True True)) = [(7100000, 1000, False)] \<and>
   run erased [idle] \<noteq> None \<and>
   display_log (the (run erased [idle])) = [(7100000, 1000, False), (7100000, 1000, False)]"
  by (simp add: run_def setup_trx_def setupSi5351_def Let_def loadSettings_def erased_def
        EEPROM_get_u16_def loop_def idle_def handleEncoder_def updateVFO_def handlePTT_def
        handleEncoderSwitch_def updateDisplay_def boot_def consts_defs)

end
